theory Spec2Isabelle
  imports Complex_Main "HOL-Library.AList"
begin

section \<open>JavaScript values read by the chart components\<close>

text \<open>
  The components are TypeScript; the values they inspect at run time are modelled as far as
  the code looks at them. A JavaScript number is a finite rational, NaN or one of the two
  infinities. Arithmetic is only ever done on finite numbers here and is taken to be exact.
\<close>

datatype number = Finite rat | NaN | PosInfinity | NegInfinity

datatype jsvalue = JNull | JUndefined | JNumber number | JString string | JBool bool

text \<open>lodash: \<open>_.isNull(v)\<close> is \<open>v === null\<close>.\<close>

definition isNull :: "jsvalue \<Rightarrow> bool" where
  "isNull v = (v = JNull)"

text \<open>lodash: \<open>_.isNaN(v)\<close> holds for the number NaN only (not for \<open>undefined\<close>).\<close>

definition isNaN :: "jsvalue \<Rightarrow> bool" where
  "isNaN v = (v = JNumber NaN)"

text \<open>lodash: \<open>_.isFinite(v)\<close> is \<open>typeof v == 'number'\<close> and the number is finite.\<close>

definition isFinite :: "jsvalue \<Rightarrow> bool" where
  "isFinite v = (case v of JNumber (Finite r) \<Rightarrow> True | _ \<Rightarrow> False)"

text \<open>
  Truthiness of an optional string prop: \<open>undefined\<close> (\<open>None\<close>) and the empty string are
  falsy, every other string is truthy.
\<close>

definition truthy :: "string option \<Rightarrow> bool" where
  "truthy s = (case s of None \<Rightarrow> False | Some t \<Rightarrow> t \<noteq> [])"

text \<open>\<open>Math.round\<close> rounds to the nearest integer, a half upwards.\<close>

definition Math_round :: "rat \<Rightarrow> rat" where
  "Math_round x = of_int \<lfloor>x + 1 / 2\<rfloor>"

text \<open>
  \<open>new Date(t)\<close> keeps the integral part of \<open>t\<close> (truncation towards zero). Times are
  milliseconds since the epoch; the midpoint of two valid times is in the valid range.
\<close>

definition new_Date :: "rat \<Rightarrow> int" where
  "new_Date t = (if 0 \<le> t then \<lfloor>t\<rfloor> else \<lceil>t\<rceil>)"

section \<open>Styles\<close>

text \<open>
  A bundle of CSS properties is an object with primitive values: an association list in
  insertion order. \<open>_.merge(true, a, b)\<close> has the primitive \<open>true\<close> as its destination;
  lodash wraps it in a fresh object, then assigns the keys of \<open>a\<close> and of \<open>b\<close> in turn
  (a source that is \<open>undefined\<close> is skipped). The sources are left untouched.
\<close>

datatype css_value = Str string | Num rat

type_synonym css = "(string \<times> css_value) list"

definition assign :: "css \<Rightarrow> css \<Rightarrow> css" where
  "assign obj src = fold (\<lambda>(k, v). AList.update k v) src obj"

definition merge_true :: "css option \<Rightarrow> css \<Rightarrow> css" where
  "merge_true a b = assign (assign [] (case a of None \<Rightarrow> [] | Some m \<Rightarrow> m)) b"

text \<open>
  \<open>ElementStyle\<close>: the four state bundles, each of which may be missing. A channel style
  object as \<open>pathStyle\<close> reads it: \<open>element_of\<close> is the property read \<open>styleMap[element]\<close>
  (\<open>None\<close> when it gives nothing truthy), \<open>own\<close> holds the four state bundles the object
  may carry itself (the flat format of the doc comment).
\<close>

record ElementStyle =
  normal :: "css option"
  highlighted :: "css option"
  selected :: "css option"
  muted :: "css option"

record LineChartChannelStyle =
  element_of :: "string \<Rightarrow> ElementStyle option"
  own :: ElementStyle

text \<open>
  The \<open>style\<close> prop is a static mapping, a function or a \<open>Styler\<close>. Any of them is an
  object for the run-time tests of \<open>providedPathStyleMap\<close>. A static mapping is a plain
  object, given by its own properties. A \<open>Styler\<close> is represented by the plain object its
  \<open>lineChartStyle()\<close> returns (\<open>styler.ts\<close> is not part of the sources). A function is a
  JavaScript object too: it has the result of calling it (the first component) and own
  properties that can be read by name (the second component). \<open>None\<close> is \<open>undefined\<close>.
\<close>

datatype style_source =
    StylerInstance "string \<Rightarrow> LineChartChannelStyle option"
  | StyleObject "string \<Rightarrow> LineChartChannelStyle option"
  | StyleFunction "string \<Rightarrow> LineChartChannelStyle option"
                  "string \<Rightarrow> LineChartChannelStyle option"

text \<open>
  lodash: \<open>_.isObject(v)\<close> is true of every non-null value whose \<open>typeof\<close> is \<open>object\<close>
  or \<open>function\<close>.
\<close>

fun isObject :: "style_source \<Rightarrow> bool" where
  "isObject (StylerInstance m) = True"
| "isObject (StyleObject m) = True"
| "isObject (StyleFunction fn properties) = True"

fun instanceof_Styler :: "style_source \<Rightarrow> bool" where
  "instanceof_Styler (StylerInstance m) = True"
| "instanceof_Styler _ = False"

text \<open>
  A property read \<open>s[column]\<close> finds an own property of the object, or else a property the
  object inherits: every plain object inherits the properties of \<open>Object.prototype\<close>, and
  every function has a \<open>length\<close> and a \<open>name\<close> and inherits the properties of
  \<open>Function.prototype\<close> and \<open>Object.prototype\<close>. (Reading \<open>arguments\<close> or \<open>caller\<close> of a
  function gives \<open>null\<close> or throws: they are not listed, \<open>pathStyle\<close> fails either way.)
  The inherited values are functions, a number, a string or an object: none is \<open>undefined\<close>
  and none has any of the keys \<open>pathStyle\<close> reads, which makes them like a channel style
  without entries.
\<close>

definition Object_prototype :: "string list" where
  "Object_prototype =
     [''constructor'', ''hasOwnProperty'', ''isPrototypeOf'', ''propertyIsEnumerable'',
      ''toLocaleString'', ''toString'', ''valueOf'', ''__proto__'', ''__defineGetter__'',
      ''__defineSetter__'', ''__lookupGetter__'', ''__lookupSetter__'']"

definition Function_prototype :: "string list" where
  "Function_prototype = [''length'', ''name'', ''apply'', ''bind'', ''call''] @ Object_prototype"

definition no_entries :: LineChartChannelStyle where
  "no_entries =
     \<lparr>element_of = (\<lambda>e. None),
      own = \<lparr>normal = None, highlighted = None, selected = None, muted = None\<rparr>\<rparr>"

definition inherited :: "string list \<Rightarrow> string \<Rightarrow> LineChartChannelStyle option" where
  "inherited names column = (if column \<in> set names then Some no_entries else None)"

fun index :: "style_source \<Rightarrow> string \<Rightarrow> LineChartChannelStyle option" where
  "index (StylerInstance m) column =
     (case m column of Some v \<Rightarrow> Some v | None \<Rightarrow> inherited Object_prototype column)"
| "index (StyleObject m) column =
     (case m column of Some v \<Rightarrow> Some v | None \<Rightarrow> inherited Object_prototype column)"
| "index (StyleFunction fn properties) column =
     (case properties column of Some v \<Rightarrow> Some v | None \<Rightarrow> inherited Function_prototype column)"

text \<open>\<open>fn(column)\<close>: calling the style; only a function has a call result.\<close>

fun call :: "style_source \<Rightarrow> string \<Rightarrow> LineChartChannelStyle option" where
  "call (StyleFunction fn properties) column = fn column"
| "call _ column = None"

section \<open>The series\<close>

record event =
  begin_time :: int
  end_time :: int
  get :: "string \<Rightarrow> jsvalue"

type_synonym TimeSeries = "event list"

definition size_of :: "TimeSeries \<Rightarrow> nat" where
  "size_of ts = length ts"

text \<open>A \<open>Point\<close> is \<open>{x: Date, y: number}\<close>; the fields are \<open>xDate\<close> and \<open>yValue\<close> here.\<close>

record Point =
  xDate :: int
  yValue :: jsvalue

type_synonym PointData = "Point list"

section \<open>Rendered elements\<close>

text \<open>
  The node tree handed to React: \<open>g\<close> (with its key and transform), \<open>path\<close> (with the
  column its pointer handlers carry, if it has handlers), \<open>rect\<close> (at the origin), \<open>text\<close>
  and the \<open>ValueList\<close> component of the label axis.
\<close>

datatype key = NumKey nat | StrKey string

datatype transform = Translate rat rat

datatype element =
    Group "key option" "transform option" "element list"
  | Path string css "string option"
  | Rect rat rat css
  | Text rat rat "string option" css string
  | ValueList css css "(string option \<times> jsvalue) list" rat

section \<open>LineChart\<close>

text \<open>
  A scale is a function object of the caller: it has an identity (compared by \<open>!==\<close>) and
  maps a domain value to a pixel coordinate. The array of columns has an identity too. A
  callback is known by its identity only. The props are the ones of \<open>LineChartProps\<close> and,
  of \<open>ChartProps\<close>, the three the component reads: \<open>width\<close> (a finite number), \<open>timeScale\<close>
  and \<open>yScale\<close>. They are the props the component sees, the defaults filled in.
\<close>

record 'a scale =
  scale_ref :: nat
  scale_fn :: "'a \<Rightarrow> rat"

record columns_array =
  array_ref :: nat
  items :: "string list"

record LineChartProps =
  width :: rat
  timeScale :: "int scale"
  yScale :: "jsvalue scale"
  series :: TimeSeries
  axis :: string
  columns :: columns_array
  style :: "style_source option"
  interpolation :: string
  breakLine :: bool
  selection :: "string option"
  onSelectionChange :: "nat option"
  highlight :: "string option"
  onHighlightChange :: "nat option"
  visible :: "bool option"

text \<open>
  The exceptions: a \<open>TypeError\<close> for reading a property of \<open>undefined\<close>, and the error d3
  throws for a format specifier it does not accept.
\<close>

datatype error = TypeError | InvalidFormat

subsection \<open>shouldComponentUpdate\<close>

text \<open>
  \<open>scaleAsString\<close> (\<open>util.ts\<close>) and \<open>TimeSeries.is\<close> (pondjs) are not part of the sources:
  both are parameters.
\<close>

definition shouldComponentUpdate ::
  "(int scale \<Rightarrow> string) \<Rightarrow> (TimeSeries \<Rightarrow> TimeSeries \<Rightarrow> bool) \<Rightarrow>
   LineChartProps \<Rightarrow> LineChartProps \<Rightarrow> bool" where
  "shouldComponentUpdate scaleAsString TimeSeries_is props nextProps =
    (let newSeries = series nextProps;
         oldSeries = series props;
         widthChanged = (width props \<noteq> width nextProps);
         timeScaleChanged =
           (scaleAsString (timeScale props) \<noteq> scaleAsString (timeScale nextProps));
         yAxisScaleChanged = (scale_ref (yScale props) \<noteq> scale_ref (yScale nextProps));
         interpolationChanged = (interpolation props \<noteq> interpolation nextProps);
         highlightChanged = (highlight props \<noteq> highlight nextProps);
         selectionChanged = (selection props \<noteq> selection nextProps);
         columnsChanged = (array_ref (columns props) \<noteq> array_ref (columns nextProps));
         seriesChanged =
           (if size_of oldSeries \<noteq> size_of newSeries then True
            else \<not> TimeSeries_is oldSeries newSeries)
     in widthChanged \<or> seriesChanged \<or> timeScaleChanged \<or> yAxisScaleChanged \<or>
        interpolationChanged \<or> highlightChanged \<or> selectionChanged \<or> columnsChanged)"

subsection \<open>Style resolution\<close>

definition providedPathStyleMap :: "LineChartProps \<Rightarrow> string \<Rightarrow> LineChartChannelStyle option" where
  "providedPathStyleMap props column =
    (case style props of
       None \<Rightarrow> None
     | Some st \<Rightarrow>
         if instanceof_Styler st then index st column
         else if isObject st then index st column
         else call st column)"

text \<open>
  \<open>defaultStyle.line\<close> (\<open>style.ts\<close>) is not part of the sources: it is the parameter \<open>d\<close>.
  \<open>styleMap[element]\<close> reads a property of \<open>styleMap\<close>: when \<open>providedPathStyleMap\<close> gave
  \<open>undefined\<close> (\<open>None\<close>), that throws a \<open>TypeError\<close>. An object is truthy, even an empty
  one, so that \<open>s.selected ? s.selected : {}\<close> tests whether the bundle is there.
\<close>

definition pathStyle :: "ElementStyle \<Rightarrow> LineChartProps \<Rightarrow> string \<Rightarrow> string \<Rightarrow> error + css" where
  "pathStyle d props element column =
    (let isHighlighted = (truthy (highlight props) \<and> Some column = highlight props);
         isSelected = (truthy (selection props) \<and> Some column = selection props)
     in case providedPathStyleMap props column of
          None \<Rightarrow> Inl TypeError
        | Some styleMap \<Rightarrow>
            let s = (case element_of styleMap element of Some e \<Rightarrow> e | None \<Rightarrow> own styleMap);
                style =
                  (if truthy (selection props) then
                     (if isSelected then
                        merge_true (selected d) (case selected s of Some b \<Rightarrow> b | None \<Rightarrow> [])
                      else if isHighlighted then
                        merge_true (highlighted d)
                          (case highlighted s of Some b \<Rightarrow> b | None \<Rightarrow> [])
                      else merge_true (muted d) (case muted s of Some b \<Rightarrow> b | None \<Rightarrow> []))
                   else if isHighlighted then
                     merge_true (highlighted d) (case highlighted s of Some b \<Rightarrow> b | None \<Rightarrow> [])
                   else merge_true (normal d) (case normal s of Some b \<Rightarrow> b | None \<Rightarrow> []))
            in Inr (AList.update ''pointerEvents'' (Str ''none'') style))"

subsection \<open>Rendering\<close>

text \<open>
  The d3 line generator with the curve table of \<open>curve.ts\<close> is a parameter: from the name of
  the interpolation and the pixel coordinates of the points (the accessors apply the two
  scales) it makes the path string. The style of the visible path is computed after it.
\<close>

definition renderPath ::
  "(string \<Rightarrow> (rat \<times> rat) list \<Rightarrow> string) \<Rightarrow> ElementStyle \<Rightarrow> LineChartProps \<Rightarrow>
   PointData \<Rightarrow> string \<Rightarrow> nat \<Rightarrow> error + element" where
  "renderPath line d props data column k =
    (let hitStyle = [(''stroke'', Str ''white''), (''fill'', Str ''none''), (''opacity'', Num 0),
                     (''strokeWidth'', Num 7), (''cursor'', Str ''crosshair''),
                     (''pointerEvents'', Str ''stroke'')];
         path = line (interpolation props)
                  (map (\<lambda>p. (scale_fn (timeScale props) (xDate p),
                              scale_fn (yScale props) (yValue p))) data)
     in case pathStyle d props ''line'' column of
          Inl e \<Rightarrow> Inl e
        | Inr st \<Rightarrow>
            Inr (Group (Some (NumKey k)) None [Path path st None, Path path hitStyle (Some column)]))"

text \<open>
  \<open>forEach\<close> over the event list, threading the variables the callback assigns to; an
  exception thrown by the callback ends the loop.
\<close>

fun forEach :: "('s \<Rightarrow> 'a \<Rightarrow> error + 's) \<Rightarrow> 'a list \<Rightarrow> 's \<Rightarrow> error + 's" where
  "forEach f [] s = Inr s"
| "forEach f (a # as) s = (case f s a of Inl e \<Rightarrow> Inl e | Inr s' \<Rightarrow> forEach f as s')"

definition timestamp_of :: "event \<Rightarrow> int" where
  "timestamp_of ev =
     new_Date (of_int (begin_time ev) + (of_int (end_time ev) - of_int (begin_time ev)) / 2)"

definition badPoint :: "jsvalue \<Rightarrow> bool" where
  "badPoint v = (isNull v \<or> isNaN v \<or> \<not> isFinite v)"

text \<open>
  The callback of the \<open>breakLine\<close> branch; its state is \<open>pathLines\<close>, \<open>count\<close> and
  \<open>currentPoints\<close> (\<open>None\<close> is \<open>null\<close>).
\<close>

definition breakLine_callback ::
  "(string \<Rightarrow> (rat \<times> rat) list \<Rightarrow> string) \<Rightarrow> ElementStyle \<Rightarrow> LineChartProps \<Rightarrow> string \<Rightarrow>
   element list \<times> nat \<times> PointData option \<Rightarrow> event \<Rightarrow>
   error + element list \<times> nat \<times> PointData option" where
  "breakLine_callback line d props column st ev =
    (case st of (pathLines, count, currentPoints) \<Rightarrow>
      let timestamp = timestamp_of ev;
          v = get ev column
      in if \<not> badPoint v then
           Inr (pathLines, count,
                Some ((case currentPoints of None \<Rightarrow> [] | Some ps \<Rightarrow> ps) @
                      [\<lparr>xDate = timestamp, yValue = v\<rparr>]))
         else
           (case currentPoints of
              Some ps \<Rightarrow>
                if length ps > 1 then
                  (case renderPath line d props ps column count of
                     Inl e \<Rightarrow> Inl e
                   | Inr g \<Rightarrow> Inr (pathLines @ [g], count + 1, None))
                else Inr (pathLines, count, None)
            | None \<Rightarrow> Inr (pathLines, count, currentPoints)))"

text \<open>The callback of the other branch only appends to \<open>cleanedPoints\<close>.\<close>

definition cleaned_callback :: "string \<Rightarrow> PointData \<Rightarrow> event \<Rightarrow> error + PointData" where
  "cleaned_callback column cleanedPoints ev =
    (let timestamp = timestamp_of ev;
         v = get ev column
     in if \<not> badPoint v then Inr (cleanedPoints @ [\<lparr>xDate = timestamp, yValue = v\<rparr>])
        else Inr cleanedPoints)"

definition renderLine ::
  "(string \<Rightarrow> (rat \<times> rat) list \<Rightarrow> string) \<Rightarrow> ElementStyle \<Rightarrow> LineChartProps \<Rightarrow> string \<Rightarrow>
   error + element" where
  "renderLine line d props column =
    (if breakLine props then
       (case forEach (breakLine_callback line d props column) (series props) ([], 1, None) of
          Inl e \<Rightarrow> Inl e
        | Inr (pathLines, count, currentPoints) \<Rightarrow>
            (case currentPoints of
               Some ps \<Rightarrow>
                 if length ps > 1 then
                   (case renderPath line d props ps column count of
                      Inl e \<Rightarrow> Inl e
                    | Inr g \<Rightarrow> Inr (Group (Some (StrKey column)) None (pathLines @ [g])))
                 else Inr (Group (Some (StrKey column)) None pathLines)
             | None \<Rightarrow> Inr (Group (Some (StrKey column)) None pathLines)))
     else
       (case forEach (cleaned_callback column) (series props) [] of
          Inl e \<Rightarrow> Inl e
        | Inr cleanedPoints \<Rightarrow>
            (case renderPath line d props cleanedPoints column 1 of
               Inl e \<Rightarrow> Inl e
             | Inr g \<Rightarrow> Inr (Group (Some (StrKey column)) None [g]))))"

text \<open>\<open>_.map\<close> over the columns; the first exception ends it.\<close>

fun map_columns :: "(string \<Rightarrow> error + element) \<Rightarrow> string list \<Rightarrow> error + element list" where
  "map_columns f [] = Inr []"
| "map_columns f (c # cs) =
     (case f c of
        Inl e \<Rightarrow> Inl e
      | Inr g \<Rightarrow> (case map_columns f cs of Inl e \<Rightarrow> Inl e | Inr gs \<Rightarrow> Inr (g # gs)))"

definition renderLines ::
  "(string \<Rightarrow> (rat \<times> rat) list \<Rightarrow> string) \<Rightarrow> ElementStyle \<Rightarrow> LineChartProps \<Rightarrow>
   error + element list" where
  "renderLines line d props = map_columns (renderLine line d props) (items (columns props))"

definition render ::
  "(string \<Rightarrow> (rat \<times> rat) list \<Rightarrow> string) \<Rightarrow> ElementStyle \<Rightarrow> LineChartProps \<Rightarrow>
   error + element" where
  "render line d props =
    (case renderLines line d props of Inl e \<Rightarrow> Inl e | Inr gs \<Rightarrow> Inr (Group None None gs))"

subsection \<open>The segmentation as the specification words it\<close>

text \<open>
  A record gives a point (the midpoint of its interval, the value of the column) unless its
  value is bad, that is null, NaN or not a finite number.
\<close>

definition point_of :: "string \<Rightarrow> event \<Rightarrow> Point" where
  "point_of column ev = \<lparr>xDate = timestamp_of ev, yValue = get ev column\<rparr>"

definition spec_point :: "string \<Rightarrow> event \<Rightarrow> Point option" where
  "spec_point column ev =
    (case get ev column of
       JNumber (Finite r) \<Rightarrow> Some (point_of column ev)
     | _ \<Rightarrow> None)"

text \<open>The maximal runs of consecutive good points: the list is cut at every bad point.\<close>

fun spec_runs :: "'a option list \<Rightarrow> 'a list list" where
  "spec_runs [] = [[]]"
| "spec_runs (None # ps) = [] # spec_runs ps"
| "spec_runs (Some a # ps) = (case spec_runs ps of [] \<Rightarrow> [[a]] | r # rs \<Rightarrow> (a # r) # rs)"

definition spec_segments :: "bool \<Rightarrow> TimeSeries \<Rightarrow> string \<Rightarrow> PointData list" where
  "spec_segments break ts column =
    (if break then filter (\<lambda>r. 2 \<le> length r) (spec_runs (map (spec_point column) ts))
     else [List.map_filter (spec_point column) ts])"

text \<open>Every emitted segment becomes one path group; the groups are keyed 1, 2, ... in order.\<close>

fun emit_from :: "(PointData \<Rightarrow> nat \<Rightarrow> error + element) \<Rightarrow> nat \<Rightarrow> PointData list \<Rightarrow>
                  error + element list" where
  "emit_from rp k [] = Inr []"
| "emit_from rp k (s # ss) =
     (case rp s k of
        Inl e \<Rightarrow> Inl e
      | Inr g \<Rightarrow> (case emit_from rp (Suc k) ss of Inl e \<Rightarrow> Inl e | Inr gs \<Rightarrow> Inr (g # gs)))"

definition emit_segments ::
  "(string \<Rightarrow> (rat \<times> rat) list \<Rightarrow> string) \<Rightarrow> ElementStyle \<Rightarrow> LineChartProps \<Rightarrow> string \<Rightarrow>
   PointData list \<Rightarrow> error + element" where
  "emit_segments line d props column segs =
    (case emit_from (\<lambda>s k. renderPath line d props s column k) 1 segs of
       Inl e \<Rightarrow> Inl e
     | Inr gs \<Rightarrow> Inr (Group (Some (StrKey column)) None gs))"

definition spec_renderLine ::
  "(string \<Rightarrow> (rat \<times> rat) list \<Rightarrow> string) \<Rightarrow> ElementStyle \<Rightarrow> LineChartProps \<Rightarrow> string \<Rightarrow>
   error + element" where
  "spec_renderLine line d props column =
     emit_segments line d props column
       (spec_segments (breakLine props) (series props) column)"

text \<open>The state of the loop of \<open>renderLine\<close> once the loop is over: the last close.\<close>

definition close_last ::
  "(PointData \<Rightarrow> nat \<Rightarrow> error + element) \<Rightarrow> element list \<times> nat \<times> PointData option \<Rightarrow>
   error + element list" where
  "close_last rp st =
    (case st of (pathLines, count, currentPoints) \<Rightarrow>
      (case currentPoints of
         Some ps \<Rightarrow>
           if length ps > 1 then
             (case rp ps count of Inl e \<Rightarrow> Inl e | Inr g \<Rightarrow> Inr (pathLines @ [g]))
           else Inr pathLines
       | None \<Rightarrow> Inr pathLines))"

subsection \<open>The style state as the specification words it\<close>

text \<open>
  The precedence is selected, highlighted, muted, normal: a column takes the first state that
  applies to it. Selected applies to the selected column, highlighted to the highlighted
  column, muted to every column once there is a selection, normal always.
\<close>

datatype style_state = Selected | Highlighted | Muted | Normal

fun applies :: "string option \<Rightarrow> string option \<Rightarrow> string \<Rightarrow> style_state \<Rightarrow> bool" where
  "applies sel hl column Selected = (truthy sel \<and> sel = Some column)"
| "applies sel hl column Highlighted = (truthy hl \<and> hl = Some column)"
| "applies sel hl column Muted = truthy sel"
| "applies sel hl column Normal = True"

definition spec_style_state :: "string option \<Rightarrow> string option \<Rightarrow> string \<Rightarrow> style_state" where
  "spec_style_state sel hl column =
     hd (filter (applies sel hl column) [Selected, Highlighted, Muted, Normal])"

fun bundle_of :: "style_state \<Rightarrow> ElementStyle \<Rightarrow> css option" where
  "bundle_of Selected e = selected e"
| "bundle_of Highlighted e = highlighted e"
| "bundle_of Muted e = muted e"
| "bundle_of Normal e = normal e"

text \<open>
  The style of a state: the supplied bundle of that state (of the element's sub-object if
  the channel style has one, else of the channel style itself) merged onto the default
  bundle of that state, with pointer events off.
\<close>

definition state_style :: "ElementStyle \<Rightarrow> LineChartChannelStyle \<Rightarrow> string \<Rightarrow> style_state \<Rightarrow> css" where
  "state_style d styleMap element st =
    (let s = (case element_of styleMap element of Some e \<Rightarrow> e | None \<Rightarrow> own styleMap)
     in AList.update ''pointerEvents'' (Str ''none'')
          (merge_true (bundle_of st d) (case bundle_of st s of Some b \<Rightarrow> b | None \<Rightarrow> [])))"

section \<open>LabelAxis\<close>

text \<open>
  The props as the component sees them. \<open>values_list\<close> is the \<open>values\<close> prop: \<open>None\<close> is a
  falsy value (\<open>null\<close>), a list is an array, which is truthy even when empty; the default is
  the empty array. \<open>max_value\<close>, \<open>min_value\<close>, \<open>axis_width\<close> and \<open>axis_height\<close> are \<open>max\<close>,
  \<open>min\<close>, \<open>width\<close> and \<open>height\<close>.
\<close>

record LabelAxisProps =
  label :: string
  hideScale :: bool
  values_list :: "(string option \<times> jsvalue) list option"
  valWidth :: rat
  max_value :: rat
  min_value :: rat
  format :: string
  axis_width :: rat
  axis_height :: rat

text \<open>
  \<open>format\<close> of d3-format is a parameter: from a specifier it makes the formatting function,
  or throws.
\<close>

definition renderAxis :: "(string \<Rightarrow> (rat \<Rightarrow> string) option) \<Rightarrow> LabelAxisProps \<Rightarrow> error + element" where
  "renderAxis d3_format props =
    (let valueWidth = valWidth props;
         rectWidth = axis_width props - valueWidth;
         st = [(''fontSize'', Num 11), (''textAnchor'', Str ''start''), (''fill'', Str ''#bdbdbd'')]
     in if hideScale props then Inr (Group None None [])
        else
          let valXPos = rectWidth + 3;
              fmt = format props
          in case d3_format fmt of
               None \<Rightarrow> Inl InvalidFormat
             | Some f \<Rightarrow>
                 let maxStr = f (max_value props);
                     minStr = f (min_value props)
                 in Inr (Group None None
                      [Text valXPos 0 (Some ''1.2em'') st maxStr,
                       Text valXPos (axis_height props) None st minStr]))"

definition LabelAxis_render ::
  "(string \<Rightarrow> (rat \<Rightarrow> string) option) \<Rightarrow> LabelAxisProps \<Rightarrow> error + element" where
  "LabelAxis_render d3_format props =
    (let textStyle = [(''fontSize'', Num 12), (''textAnchor'', Str ''middle''),
                      (''fill'', Str ''#838383'')];
         valueWidth = valWidth props;
         rectWidth = axis_width props - valueWidth;
         (labelYPos, valueList) =
           (case values_list props of
              Some vs \<Rightarrow>
                (max (Math_round (axis_height props / 4)) 10,
                 [ValueList textStyle [(''fill'', Str ''none''), (''stroke'', Str ''none'')]
                    vs rectWidth])
            | None \<Rightarrow> (Math_round (axis_height props / 2), []))
     in case renderAxis d3_format props of
          Inl e \<Rightarrow> Inl e
        | Inr ax \<Rightarrow>
            Inr (Group None None
              [Rect rectWidth (axis_height props) [(''fill'', Str ''none''), (''stroke'', Str ''none'')],
               Text (Math_round (rectWidth / 2)) labelYPos None textStyle (label props),
               Group None (Some (Translate 0 (labelYPos + 2))) valueList,
               ax]))"

text \<open>Reading the result: the \<open>y\<close> of the title, and the text nodes among the children.\<close>

fun title_y :: "error + element \<Rightarrow> rat option" where
  "title_y (Inr (Group k t (r # Text tx ty dy st c # rest))) = Some ty"
| "title_y _ = None"

fun is_text :: "element \<Rightarrow> bool" where
  "is_text (Text tx ty dy st c) = True"
| "is_text _ = False"

fun text_children :: "error + element \<Rightarrow> element list" where
  "text_children (Inr (Group k t cs)) = filter is_text cs"
| "text_children _ = []"

section \<open>Example inputs\<close>

text \<open>The default line style, with the bundles of the doc comment of the \<open>style\<close> prop.\<close>

definition doc_style :: ElementStyle where
  "doc_style =
     \<lparr>normal = Some [(''stroke'', Str ''steelblue''), (''fill'', Str ''none''), (''strokeWidth'', Num 1)],
      highlighted = Some [(''stroke'', Str ''#5a98cb''), (''fill'', Str ''none''), (''strokeWidth'', Num 1)],
      selected = Some [(''stroke'', Str ''steelblue''), (''fill'', Str ''none''), (''strokeWidth'', Num 2)],
      muted = Some [(''stroke'', Str ''steelblue''), (''fill'', Str ''none''), (''opacity'', Num (4 / 10)),
                    (''strokeWidth'', Num 1)]\<rparr>"

definition red_channel :: LineChartChannelStyle where
  "red_channel =
     \<lparr>element_of = (\<lambda>e. if e = ''line''
        then Some \<lparr>normal = Some [(''stroke'', Str ''red'')], highlighted = None,
                   selected = Some [(''strokeWidth'', Num 3)], muted = None\<rparr>
        else None),
      own = \<lparr>normal = None, highlighted = None, selected = None, muted = None\<rparr>\<rparr>"

definition example_style :: style_source where
  "example_style = StyleObject (\<lambda>c. if c = ''value'' \<or> c = ''a'' \<or> c = ''b'' then Some red_channel else None)"

text \<open>A stand-in for the line generator: one letter for every point.\<close>

definition example_line :: "string \<Rightarrow> (rat \<times> rat) list \<Rightarrow> string" where
  "example_line curve pts = map (\<lambda>p. CHR ''L'') pts"

definition example_event :: "int \<Rightarrow> jsvalue \<Rightarrow> event" where
  "example_event t v =
     \<lparr>begin_time = t, end_time = t + 1000,
      get = (\<lambda>c. if c = ''value'' then v else JUndefined)\<rparr>"

definition example_props :: "TimeSeries \<Rightarrow> LineChartProps" where
  "example_props ts =
     \<lparr>width = 600,
      timeScale = \<lparr>scale_ref = 1, scale_fn = (\<lambda>t. of_int t / 1000)\<rparr>,
      yScale = \<lparr>scale_ref = 2, scale_fn = (\<lambda>v. case v of JNumber (Finite r) \<Rightarrow> 100 - r | _ \<Rightarrow> 0)\<rparr>,
      series = ts,
      axis = ''y'',
      columns = \<lparr>array_ref = 3, items = [''value'']\<rparr>,
      style = Some example_style,
      interpolation = ''curveLinear'',
      breakLine = True,
      selection = None,
      onSelectionChange = None,
      highlight = None,
      onHighlightChange = None,
      visible = Some True\<rparr>"

text \<open>The series 1, 2, bad, 4, 5 of the specification.\<close>

definition example_series :: TimeSeries where
  "example_series =
     [example_event 0 (JNumber (Finite 1)), example_event 1000 (JNumber (Finite 2)),
      example_event 2000 JNull, example_event 3000 (JNumber (Finite 4)),
      example_event 4000 (JNumber (Finite 5))]"

definition example_scaleAsString :: "int scale \<Rightarrow> string" where
  "example_scaleAsString sc = (if scale_ref sc = 1 then ''0,5000-0,600'' else ''other'')"

definition example_format :: "string \<Rightarrow> (rat \<Rightarrow> string) option" where
  "example_format fmt =
     (if fmt = ''.2f'' then Some (\<lambda>r. if r = 0 then ''0.00'' else ''120.00'') else None)"

definition example_axis :: "(string option \<times> jsvalue) list option \<Rightarrow> LabelAxisProps" where
  "example_axis vs =
     \<lparr>label = ''Traffic'', hideScale = False, values_list = vs, valWidth = 40,
      max_value = 120, min_value = 0, format = ''.2f'', axis_width = 140, axis_height = 100\<rparr>"

section \<open>Segmentation of a line\<close>

lemma spec_runs_nonempty: "spec_runs ps \<noteq> []"
  by (induction ps rule: spec_runs.induct) (auto split: list.splits)

lemma spec_point_bad: "badPoint (get ev column) \<Longrightarrow> spec_point column ev = None"
  by (auto simp: badPoint_def isNull_def isNaN_def isFinite_def spec_point_def
           split: jsvalue.splits number.splits)

lemma spec_point_good:
  "\<not> badPoint (get ev column) \<Longrightarrow>
   spec_point column ev = Some (point_of column ev)"
  by (auto simp: badPoint_def isNull_def isNaN_def isFinite_def spec_point_def
           split: jsvalue.splits number.splits)

text \<open>
  The invariant of the \<open>breakLine\<close> loop: what the rest of the loop and the final close emit
  are the runs of the remaining records, the first of them continuing the open segment.
\<close>

lemma break_loop:
  "(case forEach (breakLine_callback line d props column) evs (pl, c, cur) of
      Inl e \<Rightarrow> Inl e
    | Inr st \<Rightarrow> close_last (\<lambda>s k. renderPath line d props s column k) st) =
   (case emit_from (\<lambda>s k. renderPath line d props s column k) c
           (filter (\<lambda>r. 2 \<le> length r)
              (((case cur of None \<Rightarrow> [] | Some ps \<Rightarrow> ps) @
                  hd (spec_runs (map (spec_point column) evs)))
               # tl (spec_runs (map (spec_point column) evs)))) of
      Inl e \<Rightarrow> Inl e
    | Inr gs \<Rightarrow> Inr (pl @ gs))"
proof (induction evs arbitrary: pl c cur)
  case Nil
  show ?case
    by (cases cur) (simp_all add: close_last_def split: sum.splits)
next
  case (Cons ev evs)
  let ?R = "spec_runs (map (spec_point column) evs)"
  obtain r rs where R: "?R = r # rs"
    using spec_runs_nonempty by (cases ?R) auto
  show ?case
  proof (cases "badPoint (get ev column)")
    case bad: True
    show ?thesis
    proof (cases cur)
      case None
      show ?thesis
        using Cons.IH[of pl c None] bad None R
        by (simp add: breakLine_callback_def spec_point_bad)
    next
      case (Some ps)
      show ?thesis
      proof (cases "length ps > 1")
        case short: False
        show ?thesis
          using Cons.IH[of pl c None] bad Some R short
          by (simp add: breakLine_callback_def spec_point_bad)
      next
        case long: True
        show ?thesis
        proof (cases "renderPath line d props ps column c")
          case (Inl e)
          show ?thesis
            using bad Some R long Inl
            by (simp add: breakLine_callback_def spec_point_bad)
        next
          case (Inr g)
          show ?thesis
            using Cons.IH[of "pl @ [g]" "Suc c" None] bad Some R long Inr
            by (simp add: breakLine_callback_def spec_point_bad split: sum.splits)
        qed
      qed
    qed
  next
    case False
    show ?thesis
      using Cons.IH[of pl c "Some ((case cur of None \<Rightarrow> [] | Some ps \<Rightarrow> ps) @
              [point_of column ev])"] False R
      by (simp add: breakLine_callback_def spec_point_good point_of_def)
  qed
qed

lemma cleaned_callback_eq:
  "cleaned_callback column acc ev =
   Inr (acc @ (case spec_point column ev of None \<Rightarrow> [] | Some p \<Rightarrow> [p]))"
  by (cases "badPoint (get ev column)")
     (simp_all add: cleaned_callback_def spec_point_bad spec_point_good point_of_def)

lemma forEach_append:
  assumes "\<And>acc a. f acc a = Inr (acc @ g a)"
  shows "forEach f as acc = Inr (acc @ concat (map g as))"
  by (induction as arbitrary: acc) (simp_all add: assms)

lemma concat_map_filter:
  "concat (map (\<lambda>a. case h a of None \<Rightarrow> [] | Some p \<Rightarrow> [p]) as) = List.map_filter h as"
  by (induction as) (simp_all add: map_filter_simps split: option.splits)

lemma cleaned_loop:
  "forEach (cleaned_callback column) evs acc = Inr (acc @ List.map_filter (spec_point column) evs)"
  using forEach_append[of "cleaned_callback column"
          "\<lambda>a. case spec_point column a of None \<Rightarrow> [] | Some p \<Rightarrow> [p]" evs acc]
  by (simp only: cleaned_callback_eq concat_map_filter)

lemma renderLine_close_last:
  "breakLine props \<Longrightarrow>
   renderLine line d props column =
   (case (case forEach (breakLine_callback line d props column) (series props) ([], 1, None) of
            Inl e \<Rightarrow> Inl e
          | Inr st \<Rightarrow> close_last (\<lambda>s k. renderPath line d props s column k) st) of
      Inl e \<Rightarrow> Inl e
    | Inr gs \<Rightarrow> Inr (Group (Some (StrKey column)) None gs))"
  by (simp add: renderLine_def close_last_def split: sum.splits option.splits prod.splits)

lemma renderLine_refines: "renderLine line d props column = spec_renderLine line d props column"
proof (cases "breakLine props")
  case True
  obtain r rs where R: "spec_runs (map (spec_point column) (series props)) = r # rs"
    using spec_runs_nonempty by (cases "spec_runs (map (spec_point column) (series props))") auto
  show ?thesis
    using True R
    by (simp add: renderLine_close_last break_loop spec_renderLine_def emit_segments_def
             spec_segments_def split: sum.splits)
next
  case False
  then show ?thesis
    by (simp add: renderLine_def cleaned_loop spec_renderLine_def emit_segments_def
             spec_segments_def split: sum.splits)
qed



lemma spec_runs_all_good:
  "\<forall>ev \<in> set evs. \<not> badPoint (get ev column) \<Longrightarrow>
   spec_runs (map (spec_point column) evs) = [map (point_of column) evs]"
  by (induction evs) (simp_all add: spec_point_good)

lemma map_filter_all_good:
  "\<forall>ev \<in> set evs. \<not> badPoint (get ev column) \<Longrightarrow>
   List.map_filter (spec_point column) evs = map (point_of column) evs"
  by (induction evs) (simp_all add: spec_point_good map_filter_simps)

lemma spec_segments_all_good:
  assumes "\<forall>ev \<in> set evs. \<not> badPoint (get ev column)"
  shows "spec_segments True evs column =
           (if 2 \<le> length evs then [map (point_of column) evs] else [])"
    and "spec_segments False evs column = [map (point_of column) evs]"
  using assms
  by (simp_all add: spec_segments_def spec_runs_all_good map_filter_all_good)

lemma providedPathStyleMap_breakLine [simp]:
  "providedPathStyleMap (props\<lparr>breakLine := b\<rparr>) column = providedPathStyleMap props column"
  by (simp add: providedPathStyleMap_def)

lemma pathStyle_breakLine [simp]:
  "pathStyle d (props\<lparr>breakLine := b\<rparr>) element column = pathStyle d props element column"
  by (simp add: pathStyle_def Let_def split: option.splits)

lemma renderPath_breakLine [simp]:
  "renderPath line d (props\<lparr>breakLine := b\<rparr>) data column k = renderPath line d props data column k"
  by (simp add: renderPath_def)

lemma emit_segments_breakLine [simp]:
  "emit_segments line d (props\<lparr>breakLine := b\<rparr>) column segs = emit_segments line d props column segs"
  by (simp add: emit_segments_def)

text \<open>
  Claim C1. For every series and every column, \<open>renderLine\<close> emits the segments of the
  specification, each as one path group keyed from 1: with \<open>breakLine\<close> the maximal runs of
  consecutive good points that have at least two points, without it the one segment of all
  good points, whatever its length. For five records that are good, good, bad, good, good
  these are the two segments of two points, or the one segment of four.
\<close>

theorem renderLine_segmentation:
  "renderLine line d props column =
     emit_segments line d props column (spec_segments (breakLine props) (series props) column)
   \<and> (series props = [e1, e2, e3, e4, e5] \<and>
      \<not> badPoint (get e1 column) \<and> \<not> badPoint (get e2 column) \<and> badPoint (get e3 column) \<and>
      \<not> badPoint (get e4 column) \<and> \<not> badPoint (get e5 column) \<longrightarrow>
      renderLine line d props column =
        emit_segments line d props column
          (if breakLine props
           then [[point_of column e1, point_of column e2], [point_of column e4, point_of column e5]]
           else [[point_of column e1, point_of column e2, point_of column e4, point_of column e5]]))"
  by (simp add: renderLine_refines spec_renderLine_def spec_segments_def spec_point_good
        spec_point_bad map_filter_simps)

lemma example_props_simps [simp]:
  "series (example_props ts) = ts"
  "breakLine (example_props ts) = True"
  "style (example_props ts) = Some example_style"
  "selection (example_props ts) = None"
  "highlight (example_props ts) = None"
  by (simp_all add: example_props_def)

lemma example_event_simps [simp]:
  "get (example_event t v) c = (if c = ''value'' then v else JUndefined)"
  "timestamp_of (example_event t v) = t + 500"
  by (simp_all add: example_event_def timestamp_of_def new_Date_def)

lemma badPoint_simps [simp]:
  "badPoint JNull" "badPoint JUndefined" "badPoint (JNumber NaN)"
  "badPoint (JNumber PosInfinity)" "badPoint (JNumber NegInfinity)"
  "\<not> badPoint (JNumber (Finite r))"
  by (simp_all add: badPoint_def isNull_def isNaN_def isFinite_def)

theorem renderLine_segmentation_witness:
  "series (example_props example_series) =
     [example_event 0 (JNumber (Finite 1)), example_event 1000 (JNumber (Finite 2)),
      example_event 2000 JNull, example_event 3000 (JNumber (Finite 4)),
      example_event 4000 (JNumber (Finite 5))] \<and>
   \<not> badPoint (get (example_event 0 (JNumber (Finite 1))) ''value'') \<and>
   \<not> badPoint (get (example_event 1000 (JNumber (Finite 2))) ''value'') \<and>
   badPoint (get (example_event 2000 JNull) ''value'') \<and>
   \<not> badPoint (get (example_event 3000 (JNumber (Finite 4))) ''value'') \<and>
   \<not> badPoint (get (example_event 4000 (JNumber (Finite 5))) ''value'') \<and>
   renderLine example_line doc_style (example_props example_series) ''value'' =
     emit_segments example_line doc_style (example_props example_series) ''value''
       [[\<lparr>xDate = 500, yValue = JNumber (Finite 1)\<rparr>, \<lparr>xDate = 1500, yValue = JNumber (Finite 2)\<rparr>],
        [\<lparr>xDate = 3500, yValue = JNumber (Finite 4)\<rparr>, \<lparr>xDate = 4500, yValue = JNumber (Finite 5)\<rparr>]]"
  using conjunct2[OF renderLine_segmentation[of example_line doc_style
          "example_props example_series" "''value''"
          "example_event 0 (JNumber (Finite 1))" "example_event 1000 (JNumber (Finite 2))"
          "example_event 2000 JNull" "example_event 3000 (JNumber (Finite 4))"
          "example_event 4000 (JNumber (Finite 5))"]]
  by (simp add: example_series_def point_of_def)

text \<open>
  Claim C4, amended. For a series without bad values the two modes agree exactly when the
  series has at least two records: both then emit the one segment of all points. With no
  record or one record, \<open>breakLine\<close> emits nothing and the other mode emits the one segment
  of zero or one points.
\<close>

theorem renderLine_no_bad_values:
  assumes "\<forall>ev \<in> set (series props). \<not> badPoint (get ev column)"
  shows "(2 \<le> length (series props) \<longrightarrow>
            renderLine line d (props\<lparr>breakLine := True\<rparr>) column =
              renderLine line d (props\<lparr>breakLine := False\<rparr>) column \<and>
            renderLine line d (props\<lparr>breakLine := True\<rparr>) column =
              emit_segments line d props column [map (point_of column) (series props)]) \<and>
         (length (series props) < 2 \<longrightarrow>
            renderLine line d (props\<lparr>breakLine := True\<rparr>) column =
              Inr (Group (Some (StrKey column)) None []) \<and>
            renderLine line d (props\<lparr>breakLine := False\<rparr>) column =
              emit_segments line d props column [map (point_of column) (series props)])"
  using assms
  by (simp add: renderLine_refines spec_renderLine_def spec_segments_all_good emit_segments_def)

theorem renderLine_no_bad_values_witness:
  "\<not> badPoint (get (example_event 0 (JNumber (Finite 1))) ''value'') \<and>
   \<not> badPoint (get (example_event 1000 (JNumber (Finite 2))) ''value'') \<and>
   2 \<le> length (series (example_props [example_event 0 (JNumber (Finite 1)),
                                       example_event 1000 (JNumber (Finite 2))])) \<and>
   renderLine example_line doc_style
     ((example_props [example_event 0 (JNumber (Finite 1)),
                      example_event 1000 (JNumber (Finite 2))])\<lparr>breakLine := True\<rparr>) ''value'' =
   renderLine example_line doc_style
     ((example_props [example_event 0 (JNumber (Finite 1)),
                      example_event 1000 (JNumber (Finite 2))])\<lparr>breakLine := False\<rparr>) ''value''"
  using renderLine_no_bad_values[of "example_props [example_event 0 (JNumber (Finite 1)),
          example_event 1000 (JNumber (Finite 2))]" "''value''" example_line doc_style]
  by simp

theorem renderLine_no_bad_values_counterexample:
  "renderLine example_line doc_style ((example_props [])\<lparr>breakLine := True\<rparr>) ''value'' \<noteq>
   renderLine example_line doc_style ((example_props [])\<lparr>breakLine := False\<rparr>) ''value'' \<and>
   renderLine example_line doc_style
     ((example_props [example_event 0 (JNumber (Finite 1))])\<lparr>breakLine := True\<rparr>) ''value'' \<noteq>
   renderLine example_line doc_style
     ((example_props [example_event 0 (JNumber (Finite 1))])\<lparr>breakLine := False\<rparr>) ''value''"
  by (simp add: renderLine_def renderPath_def pathStyle_def providedPathStyleMap_def
        example_style_def breakLine_callback_def cleaned_callback_def Let_def)


section \<open>Style resolution\<close>

lemma spec_style_state_eq:
  "spec_style_state sel hl column =
     (if truthy sel then
        (if sel = Some column then Selected
         else if truthy hl \<and> hl = Some column then Highlighted
         else Muted)
      else if truthy hl \<and> hl = Some column then Highlighted
      else Normal)"
  by (auto simp: spec_style_state_def)

lemma pathStyle_resolved:
  assumes "providedPathStyleMap props column = Some styleMap"
  shows "pathStyle d props element column =
           Inr (state_style d styleMap element
                  (spec_style_state (selection props) (highlight props) column))"
  using assms
  by (auto simp: pathStyle_def state_style_def spec_style_state_eq Let_def)

lemma pathStyle_no_style:
  assumes "providedPathStyleMap props column = None"
  shows "pathStyle d props element column = Inl TypeError"
  using assms by (simp add: pathStyle_def)

lemma example_selection_simps [simp]:
  "providedPathStyleMap ((example_props ts)\<lparr>selection := sel, highlight := hl\<rparr>) ''value'' =
     Some red_channel"
  "providedPathStyleMap ((example_props ts)\<lparr>selection := sel, highlight := hl\<rparr>) ''a'' =
     Some red_channel"
  "providedPathStyleMap ((example_props ts)\<lparr>selection := sel, highlight := hl\<rparr>) ''b'' =
     Some red_channel"
  by (simp_all add: providedPathStyleMap_def example_style_def)

lemma doc_style_states:
  "state_style doc_style red_channel ''line'' Selected =
     [(''stroke'', Str ''steelblue''), (''fill'', Str ''none''), (''strokeWidth'', Num 3),
      (''pointerEvents'', Str ''none'')]"
  "state_style doc_style red_channel ''line'' Highlighted =
     [(''stroke'', Str ''#5a98cb''), (''fill'', Str ''none''), (''strokeWidth'', Num 1),
      (''pointerEvents'', Str ''none'')]"
  "state_style doc_style red_channel ''line'' Muted =
     [(''stroke'', Str ''steelblue''), (''fill'', Str ''none''), (''opacity'', Num (2 / 5)),
      (''strokeWidth'', Num 1), (''pointerEvents'', Str ''none'')]"
  "state_style doc_style red_channel ''line'' Normal =
     [(''stroke'', Str ''red''), (''fill'', Str ''none''), (''strokeWidth'', Num 1),
      (''pointerEvents'', Str ''none'')]"
  by (simp_all add: state_style_def doc_style_def red_channel_def merge_true_def assign_def)

text \<open>
  Claim C2. Whenever the style of the column resolves, \<open>pathStyle\<close> returns the style of the
  state the precedence gives. With a selection (a non-empty string) the selected column is
  selected, a highlighted other column is highlighted, and every other column is muted;
  without one the highlighted column is highlighted and every other column is normal. A
  column is muted only if a column other than it is selected.
\<close>

theorem pathStyle_precedence:
  assumes "providedPathStyleMap props column = Some styleMap"
  shows "pathStyle d props element column =
           Inr (state_style d styleMap element
                  (spec_style_state (selection props) (highlight props) column)) \<and>
         (truthy (selection props) \<longrightarrow>
            spec_style_state (selection props) (highlight props) column =
              (if selection props = Some column then Selected
               else if truthy (highlight props) \<and> highlight props = Some column then Highlighted
               else Muted)) \<and>
         (\<not> truthy (selection props) \<longrightarrow>
            spec_style_state (selection props) (highlight props) column =
              (if truthy (highlight props) \<and> highlight props = Some column then Highlighted
               else Normal)) \<and>
         (spec_style_state (selection props) (highlight props) column = Muted \<longrightarrow>
            (\<exists>other. selection props = Some other \<and> other \<noteq> [] \<and> other \<noteq> column))"
proof -
  have "spec_style_state (selection props) (highlight props) column = Muted \<longrightarrow>
          (\<exists>other. selection props = Some other \<and> other \<noteq> [] \<and> other \<noteq> column)"
    by (cases "selection props") (auto simp: spec_style_state_eq truthy_def split: if_splits)
  then show ?thesis
    using pathStyle_resolved[OF assms] by (simp add: spec_style_state_eq)
qed

theorem pathStyle_precedence_witness:
  "providedPathStyleMap ((example_props [])\<lparr>selection := Some ''b'', highlight := Some ''a''\<rparr>) ''value'' =
     Some red_channel \<and>
   truthy (selection ((example_props [])\<lparr>selection := Some ''b'', highlight := Some ''a''\<rparr>)) \<and>
   pathStyle doc_style ((example_props [])\<lparr>selection := Some ''b'', highlight := Some ''a''\<rparr>)
     ''line'' ''value'' =
     Inr [(''stroke'', Str ''steelblue''), (''fill'', Str ''none''), (''opacity'', Num (2 / 5)),
          (''strokeWidth'', Num 1), (''pointerEvents'', Str ''none'')] \<and>
   spec_style_state (Some ''b'') (Some ''a'') ''value'' = Muted \<and>
   (\<exists>other. Some ''b'' = Some other \<and> other \<noteq> [] \<and> other \<noteq> ''value'')"
  using pathStyle_precedence[of "(example_props [])\<lparr>selection := Some ''b'', highlight := Some ''a''\<rparr>"
          "''value''" red_channel doc_style "''line''"]
  by (simp add: truthy_def doc_style_states)

text \<open>
  What \<open>pathStyle\<close> does with the selection \<open>b\<close>: column \<open>b\<close> is selected; another column is
  highlighted if it is the highlight (a non-empty string) and muted if it is not (or is the
  empty string). Without a selection and with the highlight \<open>a\<close>, column \<open>a\<close> is highlighted
  and every other column is normal.
\<close>

lemma pathStyle_selection_cases:
  "(selection props = Some ''b'' \<and> providedPathStyleMap props ''b'' = Some sb \<longrightarrow>
      pathStyle d props element ''b'' = Inr (state_style d sb element Selected)) \<and>
   (selection props = Some ''b'' \<and> column \<noteq> ''b'' \<and>
    (highlight props \<noteq> Some column \<or> column = []) \<and>
    providedPathStyleMap props column = Some sm \<longrightarrow>
      pathStyle d props element column = Inr (state_style d sm element Muted)) \<and>
   (selection props = Some ''b'' \<and> column \<noteq> ''b'' \<and> column \<noteq> [] \<and>
    highlight props = Some column \<and> providedPathStyleMap props column = Some sm \<longrightarrow>
      pathStyle d props element column = Inr (state_style d sm element Highlighted)) \<and>
   (selection props = None \<and> highlight props = Some ''a'' \<and>
    providedPathStyleMap props ''a'' = Some sa \<longrightarrow>
      pathStyle d props element ''a'' = Inr (state_style d sa element Highlighted)) \<and>
   (selection props = None \<and> highlight props = Some ''a'' \<and> column \<noteq> ''a'' \<and>
    providedPathStyleMap props column = Some sm \<longrightarrow>
      pathStyle d props element column = Inr (state_style d sm element Normal))"
  by (auto simp: pathStyle_resolved spec_style_state_eq truthy_def)

lemma pathStyle_selection_examples:
  "pathStyle doc_style ((example_props [])\<lparr>selection := Some ''b'', highlight := Some ''a''\<rparr>)
     ''line'' ''b'' = Inr (state_style doc_style red_channel ''line'' Selected)"
  "pathStyle doc_style ((example_props [])\<lparr>selection := Some ''b'', highlight := Some ''a''\<rparr>)
     ''line'' ''value'' = Inr (state_style doc_style red_channel ''line'' Muted)"
  "pathStyle doc_style ((example_props [])\<lparr>selection := None, highlight := Some ''a''\<rparr>)
     ''line'' ''a'' = Inr (state_style doc_style red_channel ''line'' Highlighted)"
  "pathStyle doc_style ((example_props [])\<lparr>selection := None, highlight := Some ''a''\<rparr>)
     ''line'' ''b'' = Inr (state_style doc_style red_channel ''line'' Normal)"
  using pathStyle_selection_cases[of "(example_props [])\<lparr>selection := Some ''b'', highlight := Some ''a''\<rparr>"
          red_channel doc_style "''line''" "''value''" red_channel red_channel]
        pathStyle_selection_cases[of "(example_props [])\<lparr>selection := None, highlight := Some ''a''\<rparr>"
          red_channel doc_style "''line''" "''b''" red_channel red_channel]
  by simp_all


section \<open>A style that does not resolve\<close>

lemma emit_from_fails:
  assumes "\<And>s k. rp s k = Inl e" and "segs \<noteq> []"
  shows "emit_from rp k segs = Inl e"
  using assms by (cases segs) simp_all

lemma renderPath_undefined:
  assumes "providedPathStyleMap props column = None"
  shows "renderPath line d props data column k = Inl TypeError"
  using assms by (simp add: renderPath_def pathStyle_no_style Let_def)

text \<open>
  When \<open>providedPathStyleMap\<close> gives \<open>undefined\<close>, \<open>pathStyle\<close> throws a \<open>TypeError\<close> and nothing
  catches it: \<open>renderPath\<close> throws, and so does \<open>renderLine\<close> as soon as it draws a segment
  (without \<open>breakLine\<close> it always draws one).
\<close>

lemma undefined_style_propagates:
  assumes "providedPathStyleMap props column = None"
  shows "pathStyle d props element column = Inl TypeError"
    and "renderPath line d props data column k = Inl TypeError"
    and "spec_segments (breakLine props) (series props) column \<noteq> [] \<Longrightarrow>
           renderLine line d props column = Inl TypeError"
    and "\<not> breakLine props \<Longrightarrow> renderLine line d props column = Inl TypeError"
proof -
  have fails: "renderLine line d props column = Inl TypeError"
    if "spec_segments (breakLine props) (series props) column \<noteq> []"
    using emit_from_fails[of "\<lambda>s k. renderPath line d props s column k" TypeError
            "spec_segments (breakLine props) (series props) column" 1] that assms
    by (simp add: renderLine_refines spec_renderLine_def emit_segments_def renderPath_undefined)
  show "pathStyle d props element column = Inl TypeError"
    using assms by (rule pathStyle_no_style)
  show "renderPath line d props data column k = Inl TypeError"
    using assms by (rule renderPath_undefined)
  show "renderLine line d props column = Inl TypeError"
    if "spec_segments (breakLine props) (series props) column \<noteq> []"
    using that by (rule fails)
  show "renderLine line d props column = Inl TypeError" if "\<not> breakLine props"
    using that by (intro fails) (simp add: spec_segments_def)
qed

text \<open>
  What the style source resolves to. Without a style it is \<open>undefined\<close>. A static mapping
  or a \<open>Styler\<close> gives its entry for the column; without an entry it gives \<open>undefined\<close>, unless
  the column has the name of an inherited property. A function is never called: it passes
  the \<open>_.isObject\<close> test, so it is read like a mapping, and what it would return for the
  column plays no part.
\<close>

lemma providedPathStyleMap_cases:
  "style props = None \<Longrightarrow> providedPathStyleMap props column = None"
  "style props = Some (StyleObject m) \<Longrightarrow>
     providedPathStyleMap props column =
       (case m column of Some v \<Rightarrow> Some v | None \<Rightarrow> inherited Object_prototype column)"
  "style props = Some (StylerInstance m) \<Longrightarrow>
     providedPathStyleMap props column =
       (case m column of Some v \<Rightarrow> Some v | None \<Rightarrow> inherited Object_prototype column)"
  "style props = Some (StyleFunction fn properties) \<Longrightarrow>
     providedPathStyleMap props column =
       (case properties column of Some v \<Rightarrow> Some v
        | None \<Rightarrow> inherited Function_prototype column)"
  by (simp_all add: providedPathStyleMap_def)

lemma missing_column_fails:
  assumes "style props = Some (StyleObject m)" and "m column = None"
    and "column \<notin> set Object_prototype"
  shows "pathStyle d props element column = Inl TypeError"
  using assms by (simp add: pathStyle_no_style providedPathStyleMap_cases inherited_def)

text \<open>
  Claim C6. The claim makes \<open>pathStyle\<close> fail when a style function returns \<open>undefined\<close> for
  the column, or when a static mapping has no entry for it. The code does not: line 243
  tests \<open>_.isObject\<close> before the call of line 248 (the doc comment of
  \<open>providedPathStyleMap\<close> and the type of the prop promise a function is called). With a
  function that returns \<open>undefined\<close> for every column, \<open>pathStyle\<close> for the column \<open>length\<close>
  returns the default normal style; with a function that returns a style for every column,
  \<open>pathStyle\<close> for the column \<open>value\<close> throws; and with a static mapping that has no entry
  for \<open>constructor\<close>, \<open>pathStyle\<close> for that column returns the default normal style.
\<close>

theorem pathStyle_style_function_not_called:
  "call (StyleFunction (\<lambda>c. None) (\<lambda>c. None)) ''length'' = None \<and>
   pathStyle doc_style
     ((example_props [])\<lparr>style := Some (StyleFunction (\<lambda>c. None) (\<lambda>c. None))\<rparr>)
     ''line'' ''length'' =
     Inr [(''stroke'', Str ''steelblue''), (''fill'', Str ''none''), (''strokeWidth'', Num 1),
          (''pointerEvents'', Str ''none'')] \<and>
   call (StyleFunction (\<lambda>c. Some red_channel) (\<lambda>c. None)) ''value'' = Some red_channel \<and>
   pathStyle doc_style
     ((example_props [])\<lparr>style := Some (StyleFunction (\<lambda>c. Some red_channel) (\<lambda>c. None))\<rparr>)
     ''line'' ''value'' = Inl TypeError \<and>
   pathStyle doc_style
     ((example_props [])\<lparr>style := Some (StyleObject (\<lambda>c. if c = ''value'' then Some red_channel else None))\<rparr>)
     ''line'' ''constructor'' =
     Inr [(''stroke'', Str ''steelblue''), (''fill'', Str ''none''), (''strokeWidth'', Num 1),
          (''pointerEvents'', Str ''none'')]"
  by (simp add: pathStyle_def providedPathStyleMap_def inherited_def Function_prototype_def
        Object_prototype_def no_entries_def doc_style_def merge_true_def assign_def truthy_def
        Let_def)

section \<open>Re-render suppression\<close>

text \<open>
  Claim C5. \<open>shouldComponentUpdate\<close> returns false when the width, the series (same size, and
  equal for \<open>TimeSeries.is\<close>), the time scale (as a string), the value scale (as a reference),
  the interpolation, the highlight, the selection and the columns (as a reference) are
  unchanged, and it returns true whenever the sizes of the two series differ.
\<close>

theorem shouldComponentUpdate_tracked:
  "(width props = width nextProps \<and>
    size_of (series props) = size_of (series nextProps) \<and>
    TimeSeries_is (series props) (series nextProps) \<and>
    scaleAsString (timeScale props) = scaleAsString (timeScale nextProps) \<and>
    scale_ref (yScale props) = scale_ref (yScale nextProps) \<and>
    interpolation props = interpolation nextProps \<and>
    highlight props = highlight nextProps \<and>
    selection props = selection nextProps \<and>
    array_ref (columns props) = array_ref (columns nextProps) \<longrightarrow>
      \<not> shouldComponentUpdate scaleAsString TimeSeries_is props nextProps) \<and>
   (size_of (series props) \<noteq> size_of (series nextProps) \<longrightarrow>
      shouldComponentUpdate scaleAsString TimeSeries_is props nextProps)"
  by (simp add: shouldComponentUpdate_def)

theorem shouldComponentUpdate_tracked_witness:
  "\<not> shouldComponentUpdate example_scaleAsString (=)
       (example_props example_series) (example_props example_series) \<and>
   size_of (series (example_props example_series)) \<noteq> size_of (series (example_props [])) \<and>
   shouldComponentUpdate example_scaleAsString (=)
       (example_props example_series) (example_props [])"
  using shouldComponentUpdate_tracked[of "example_props example_series"
          "example_props example_series" "(=)" example_scaleAsString]
        shouldComponentUpdate_tracked[of "example_props example_series"
          "example_props []" "(=)" example_scaleAsString]
  by (simp add: size_of_def example_series_def)

text \<open>What \<open>render\<close> returns does depend on \<open>breakLine\<close>: two path groups or one here.\<close>

lemma render_breakLine_differs:
  "render example_line doc_style (example_props example_series) \<noteq>
   render example_line doc_style ((example_props example_series)\<lparr>breakLine := False\<rparr>)"
  by (simp add: render_def renderLines_def renderLine_refines spec_renderLine_def
        spec_segments_def emit_segments_def example_series_def spec_point_def map_filter_simps
        renderPath_def pathStyle_def providedPathStyleMap_def example_style_def Let_def
        example_props_def)

text \<open>
  Claim C9. Two prop records that differ only in \<open>style\<close>, \<open>breakLine\<close>, \<open>visible\<close>, \<open>axis\<close>,
  \<open>onSelectionChange\<close> and \<open>onHighlightChange\<close> make \<open>shouldComponentUpdate\<close> return false,
  the series being equal to itself for \<open>TimeSeries.is\<close>.
\<close>

theorem shouldComponentUpdate_untracked:
  assumes "TimeSeries_is (series props) (series props)"
  shows "\<not> shouldComponentUpdate scaleAsString TimeSeries_is props
             (props\<lparr>style := st, breakLine := b, visible := v, axis := a,
                    onSelectionChange := f, onHighlightChange := g\<rparr>)"
  using assms by (simp add: shouldComponentUpdate_def)

theorem shouldComponentUpdate_untracked_witness:
  "series (example_props example_series) = series (example_props example_series) \<and>
   \<not> shouldComponentUpdate example_scaleAsString (=) (example_props example_series)
       ((example_props example_series)\<lparr>style := None, breakLine := False, visible := None,
          axis := ''other'', onSelectionChange := Some 7, onHighlightChange := Some 8\<rparr>) \<and>
   \<not> shouldComponentUpdate example_scaleAsString (=) (example_props example_series)
       ((example_props example_series)\<lparr>breakLine := False\<rparr>) \<and>
   render example_line doc_style (example_props example_series) \<noteq>
     render example_line doc_style ((example_props example_series)\<lparr>breakLine := False\<rparr>)"
  using shouldComponentUpdate_untracked[where TimeSeries_is = "(=)"
          and props = "example_props example_series" and scaleAsString = example_scaleAsString
          and st = None and b = False and v = None and a = "''other''"
          and f = "Some 7" and g = "Some 8"]
        shouldComponentUpdate_untracked[where TimeSeries_is = "(=)"
          and props = "example_props example_series" and scaleAsString = example_scaleAsString
          and st = "Some example_style" and b = False and v = "Some True" and a = "''y''"
          and f = None and g = None]
        render_breakLine_differs
  by (simp add: example_props_def)

section \<open>The visible prop\<close>

lemma pathStyle_visible:
  "pathStyle d (props\<lparr>visible := v\<rparr>) element column = pathStyle d props element column"
  by (simp add: pathStyle_def providedPathStyleMap_def Let_def split: option.splits)

lemma renderPath_visible:
  "renderPath line d (props\<lparr>visible := v\<rparr>) data column k = renderPath line d props data column k"
  by (simp add: renderPath_def pathStyle_visible)

lemma breakLine_callback_visible:
  "breakLine_callback line d (props\<lparr>visible := v\<rparr>) column =
   breakLine_callback line d props column"
  by (rule ext, rule ext)
     (simp add: breakLine_callback_def renderPath_visible Let_def split: prod.splits option.splits)

lemma renderLine_visible:
  "renderLine line d (props\<lparr>visible := v\<rparr>) = renderLine line d props"
  by (rule ext)
     (simp add: renderLine_def breakLine_callback_visible renderPath_visible
        split: sum.splits prod.splits option.splits)

text \<open>
  Claim C10. The result of \<open>render\<close> does not depend on \<open>visible\<close>: whatever the prop is set
  to (true, false or nothing), \<open>render\<close> returns the same tree, or throws the same error.
\<close>

theorem render_ignores_visible:
  "render line d (props\<lparr>visible := v\<rparr>) = render line d props"
  by (simp add: render_def renderLines_def renderLine_visible)

theorem render_ignores_visible_witness:
  "render example_line doc_style ((example_props example_series)\<lparr>visible := Some False\<rparr>) =
     render example_line doc_style (example_props example_series) \<and>
   render example_line doc_style ((example_props example_series)\<lparr>visible := None\<rparr>) =
     render example_line doc_style (example_props example_series)"
  using render_ignores_visible[where line = example_line and d = doc_style
          and props = "example_props example_series" and v = "Some False"]
        render_ignores_visible[where line = example_line and d = doc_style
          and props = "example_props example_series" and v = None]
  by simp

section \<open>The label axis\<close>

text \<open>
  Claim C7, amended. The title is at \<open>max(round(height/4), 10)\<close> whenever the \<open>values\<close> prop is
  an array, the empty array (the default) included; it is at \<open>round(height/2)\<close> only when
  \<open>values\<close> is falsy (\<open>null\<close>).
\<close>

theorem LabelAxis_title_position:
  assumes "renderAxis d3_format props = Inr ax"
  shows "title_y (LabelAxis_render d3_format props) =
           Some (case values_list props of
                   Some vs \<Rightarrow> max (Math_round (axis_height props / 4)) 10
                 | None \<Rightarrow> Math_round (axis_height props / 2))"
  using assms by (simp add: LabelAxis_render_def Let_def split: option.splits)

lemma example_renderAxis:
  "renderAxis example_format (example_axis vs) =
     Inr (Group None None
       [Text 103 0 (Some ''1.2em'')
          [(''fontSize'', Num 11), (''textAnchor'', Str ''start''), (''fill'', Str ''#bdbdbd'')]
          ''120.00'',
        Text 103 100 None
          [(''fontSize'', Num 11), (''textAnchor'', Str ''start''), (''fill'', Str ''#bdbdbd'')]
          ''0.00''])"
  by (simp add: renderAxis_def example_format_def example_axis_def Let_def)

lemma Math_round_examples:
  "Math_round 25 = 25" "Math_round 50 = 50"
  by code_simp+

lemma example_axis_simps [simp]:
  "axis_height (example_axis vs) = 100" "values_list (example_axis vs) = vs"
  by (simp_all add: example_axis_def)

theorem LabelAxis_title_position_witness:
  "renderAxis example_format (example_axis (Some [(Some ''Max'', JString ''100 Gbps'')])) =
     Inr (Group None None
       [Text 103 0 (Some ''1.2em'')
          [(''fontSize'', Num 11), (''textAnchor'', Str ''start''), (''fill'', Str ''#bdbdbd'')]
          ''120.00'',
        Text 103 100 None
          [(''fontSize'', Num 11), (''textAnchor'', Str ''start''), (''fill'', Str ''#bdbdbd'')]
          ''0.00'']) \<and>
   title_y (LabelAxis_render example_format
              (example_axis (Some [(Some ''Max'', JString ''100 Gbps'')]))) = Some 25 \<and>
   title_y (LabelAxis_render example_format (example_axis (Some []))) = Some 25 \<and>
   title_y (LabelAxis_render example_format (example_axis None)) = Some 50"
  using LabelAxis_title_position[OF example_renderAxis[of "Some [(Some ''Max'', JString ''100 Gbps'')]"]]
        LabelAxis_title_position[OF example_renderAxis[of "Some []"]]
        LabelAxis_title_position[OF example_renderAxis[of None]]
  by (simp add: example_renderAxis Math_round_examples)

text \<open>
  The claim as it was worded fails at the empty list: no auxiliary value is given, and the
  title of an axis of height 100 is at 25, not at 50.
\<close>

theorem LabelAxis_title_position_counterexample:
  "values_list (example_axis (Some [])) = Some [] \<and>
   title_y (LabelAxis_render example_format (example_axis (Some []))) = Some 25 \<and>
   Math_round (axis_height (example_axis (Some [])) / 2) = 50 \<and>
   title_y (LabelAxis_render example_format (example_axis (Some []))) \<noteq>
     Some (Math_round (axis_height (example_axis (Some [])) / 2))"
  by (simp add: LabelAxis_render_def example_renderAxis Math_round_examples Let_def)

text \<open>
  Claim C8. With \<open>hideScale\<close> the axis is an empty group: no text node, whatever \<open>min\<close>, \<open>max\<close>,
  \<open>width\<close> and \<open>height\<close> are. Without it (the format specifier being one d3 accepts) the
  axis is exactly two text nodes: the formatted \<open>max\<close> at the top (\<open>y = 0\<close>) and the
  formatted \<open>min\<close> at the bottom (\<open>y = height\<close>), both at \<open>width - valWidth + 3\<close>.
\<close>

theorem renderAxis_hideScale:
  "(hideScale props \<longrightarrow>
      renderAxis d3_format props = Inr (Group None None []) \<and>
      text_children (renderAxis d3_format props) = []) \<and>
   (\<not> hideScale props \<and> d3_format (format props) = Some f \<longrightarrow>
      renderAxis d3_format props =
        Inr (Group None None
          [Text (axis_width props - valWidth props + 3) 0 (Some ''1.2em'')
             [(''fontSize'', Num 11), (''textAnchor'', Str ''start''), (''fill'', Str ''#bdbdbd'')]
             (f (max_value props)),
           Text (axis_width props - valWidth props + 3) (axis_height props) None
             [(''fontSize'', Num 11), (''textAnchor'', Str ''start''), (''fill'', Str ''#bdbdbd'')]
             (f (min_value props))]) \<and>
      length (text_children (renderAxis d3_format props)) = 2)"
  by (simp add: renderAxis_def Let_def)

theorem renderAxis_hideScale_witness:
  "hideScale ((example_axis None)\<lparr>hideScale := True\<rparr>) \<and>
   renderAxis example_format ((example_axis None)\<lparr>hideScale := True\<rparr>) = Inr (Group None None []) \<and>
   \<not> hideScale (example_axis None) \<and>
   example_format (format (example_axis None)) =
     Some (\<lambda>r. if r = 0 then ''0.00'' else ''120.00'') \<and>
   renderAxis example_format (example_axis None) =
     Inr (Group None None
       [Text 103 0 (Some ''1.2em'')
          [(''fontSize'', Num 11), (''textAnchor'', Str ''start''), (''fill'', Str ''#bdbdbd'')]
          ''120.00'',
        Text 103 100 None
          [(''fontSize'', Num 11), (''textAnchor'', Str ''start''), (''fill'', Str ''#bdbdbd'')]
          ''0.00''])"
  using renderAxis_hideScale[of "(example_axis None)\<lparr>hideScale := True\<rparr>" example_format]
        renderAxis_hideScale[of "example_axis None" example_format
          "\<lambda>r. if r = 0 then ''0.00'' else ''120.00''"]
  by (simp add: example_axis_def example_format_def)


end
